theory Spec2Isabelle
  imports Main
begin

section \<open>Command pattern: the text editor (command\_textEditor.ts)\<close>

subsection \<open>Strings and \<open>String.prototype.slice\<close>\<close>

text \<open>
  A string of the program is a finite sequence of code units; \<open>length\<close> and \<open>slice\<close>
  count code units. The editor is modelled over any type \<open>'u\<close> of code units, so
  nothing below depends on which characters a string holds.

  The \<open>number\<close> arguments that reach \<open>slice\<close> are modelled as \<^typ>\<open>int\<close>: the
  integer-valued numbers, negative ones included. (\<open>slice\<close> truncates a fractional
  argument to an integer before it uses it; \<open>-0\<close> is read as \<open>0\<close>.)
\<close>

text \<open>
  The index that \<open>slice\<close> derives from an argument \<open>i\<close> on a string of length
  \<open>len\<close>: a negative \<open>i\<close> counts from the end and stops at 0, any other \<open>i\<close> stops
  at \<open>len\<close>.
\<close>

definition relative_index :: "nat \<Rightarrow> int \<Rightarrow> nat" where
  "relative_index len i =
     (if i < 0 then nat (max (int len + i) 0) else min (nat i) len)"

text \<open>
  \<open>s.slice(start, fin)\<close>; \<open>fin = None\<close> is the call with one argument, which reads
  up to the end of the string. An empty range (\<open>to \<le> from\<close>) gives the empty string.
\<close>

definition slice :: "'u list \<Rightarrow> int \<Rightarrow> int option \<Rightarrow> 'u list" where
  "slice s start fin =
     (let len = length s;
          k_from = relative_index len start;
          k_to = (case fin of None \<Rightarrow> len | Some e \<Rightarrow> relative_index len e)
      in if k_to \<le> k_from then [] else take (k_to - k_from) (drop k_from s))"

subsection \<open>Receiver: \<open>TextEditor\<close>\<close>

text \<open>
  The receiver owns one string, \<open>text\<close>, initially empty. Its two mutators are
  modelled as functions from the old content to the new one.
\<close>

definition addText :: "'u list \<Rightarrow> 'u list \<Rightarrow> 'u list" where
  "addText text newText = text @ newText"

definition deleteText :: "'u list \<Rightarrow> int \<Rightarrow> 'u list" where
  "deleteText text count = slice text 0 (Some (- count))"

subsection \<open>Concrete commands\<close>

text \<open>
  A command object. \<open>TypeCommand\<close> holds \<open>textToAdd\<close>; \<open>DeleteCommand\<close> holds
  \<open>deletedText\<close> (the empty string when constructed, overwritten by every
  \<open>execute\<close>) and \<open>count\<close>. Every command is bound to the one editor of the model.
\<close>

datatype 'u command =
    is_TypeCommand: TypeCommand (textToAdd: "'u list")
  | is_DeleteCommand: DeleteCommand (deletedText: "'u list") (count: int)

text \<open>
  \<open>execute\<close> returns the command object as it is after the call, and the new
  editor content; \<open>undo\<close> only changes the editor.
\<close>

fun execute :: "'u command \<Rightarrow> 'u list \<Rightarrow> 'u command \<times> 'u list" where
  "execute (TypeCommand t) text = (TypeCommand t, addText text t)"
| "execute (DeleteCommand d n) text =
     (let currentText = text
      in (DeleteCommand (slice currentText (- n) None) n, deleteText text n))"

fun undo :: "'u command \<Rightarrow> 'u list \<Rightarrow> 'u list" where
  "undo (TypeCommand t) text = deleteText text (int (length t))"
| "undo (DeleteCommand d n) text = addText text d"

subsection \<open>Invoker: \<open>EditorInvoker\<close>\<close>

text \<open>
  The state of one editing session: the editor's content (the field \<open>text\<close> of
  \<open>TextEditor\<close>), the command objects by reference, the invoker's \<open>history\<close>
  (an array of references, the most recent one last) and the lines written to
  the console. The history holds references, not copies: a command object that
  is executed again is changed under the entries that already point to it.
\<close>

record 'u session =
  editor_text :: "'u list"
  objects :: "nat \<Rightarrow> 'u command"
  history :: "nat list"
  console :: "string list"

definition new_session :: "(nat \<Rightarrow> 'u command) \<Rightarrow> 'u session" where
  "new_session objs = \<lparr>editor_text = [], objects = objs, history = [], console = []\<rparr>"

text \<open>
  \<open>executeCommand\<close> runs the command's \<open>execute\<close> and pushes its reference;
  \<open>undo\<close> of the invoker (\<open>invoker_undo\<close> here, \<open>undo\<close> being the commands' method)
  pops the last reference and runs that command's \<open>undo\<close>, or writes
  \<open>Nothing to undo\<close> when \<open>pop\<close> finds the history empty. None of the calls
  involved can throw, so the functions are total and have no error result.
\<close>

definition executeCommand :: "'u session \<Rightarrow> nat \<Rightarrow> 'u session" where
  "executeCommand st r =
     (let (c, t) = execute (objects st r) (editor_text st)
      in st\<lparr>editor_text := t, objects := (objects st)(r := c), history := history st @ [r]\<rparr>)"

definition invoker_undo :: "'u session \<Rightarrow> 'u session" where
  "invoker_undo st =
     (if history st = [] then st\<lparr>console := console st @ [''Nothing to undo'']\<rparr>
      else let command = last (history st)
           in st\<lparr>history := butlast (history st),
                 editor_text := undo (objects st command) (editor_text st)\<rparr>)"

subsection \<open>Sessions used below\<close>

text \<open>
  The objects of the file's usage example: \<open>new TypeCommand(editor, "Hello")\<close> at
  reference 0, \<open>new TypeCommand(editor, " World")\<close> at 1 and
  \<open>new DeleteCommand(editor, 6)\<close> at every other reference.
\<close>

definition usage_objects :: "nat \<Rightarrow> char command" where
  "usage_objects r =
     (if r = 0 then TypeCommand ''Hello''
      else if r = 1 then TypeCommand '' World''
      else DeleteCommand [] 6)"

text \<open>
  A client that keeps one \<open>new DeleteCommand(editor, 1)\<close> (reference 0) and passes
  it to the invoker more than once; the other references hold
  \<open>new TypeCommand(editor, "x")\<close>.
\<close>

definition reuse_objects :: "nat \<Rightarrow> char command" where
  "reuse_objects r = (if r = 0 then DeleteCommand [] 1 else TypeCommand ''x'')"

text \<open>
  No \<open>DeleteCommand\<close> object occurs twice among the references \<open>rs\<close>
  (a \<open>TypeCommand\<close> object may).
\<close>

definition each_DeleteCommand_once :: "(nat \<Rightarrow> 'u command) \<Rightarrow> nat list \<Rightarrow> bool" where
  "each_DeleteCommand_once objs rs = distinct (filter (\<lambda>r. is_DeleteCommand (objs r)) rs)"

section \<open>Chain of responsibility: the login example (chainOfResponsibility\_login.ts)\<close>

subsection \<open>The user table and property reads\<close>

text \<open>
  What \<open>this.users[username]\<close> can evaluate to: one of the two user objects
  \<open>{password, role}\<close> of the table, or a member that the table inherits from
  \<open>Object.prototype\<close> (a built-in function, or for \<open>__proto__\<close> the prototype
  object itself). An inherited member is truthy and has neither a \<open>password\<close> nor a
  \<open>role\<close> property, so both reads give \<open>undefined\<close> (\<open>None\<close>).
\<close>

datatype user_value = UserObject string string | Builtin

fun prop_password :: "user_value \<Rightarrow> string option" where
  "prop_password (UserObject p r) = Some p"
| "prop_password Builtin = None"

fun prop_role :: "user_value \<Rightarrow> string option" where
  "prop_role (UserObject p r) = Some r"
| "prop_role Builtin = None"

text \<open>The own properties of \<open>users\<close>, as the object literal lists them.\<close>

definition users :: "(string \<times> user_value) list" where
  "users =
     [(''alice'', UserObject ''1234'' ''admin''),
      (''bob'', UserObject ''abcd'' ''user'')]"

text \<open>
  \<open>users\<close> is created by an object literal, so its prototype is
  \<open>Object.prototype\<close>, and a property read that finds no own property continues
  there. These are the property names of \<open>Object.prototype\<close> (the last five are
  the legacy accessors that the engines running this program provide).
\<close>

definition Object_prototype :: "string list" where
  "Object_prototype =
     [''constructor'', ''hasOwnProperty'', ''isPrototypeOf'', ''propertyIsEnumerable'',
      ''toLocaleString'', ''toString'', ''valueOf'', ''__proto__'',
      ''__defineGetter__'', ''__defineSetter__'', ''__lookupGetter__'', ''__lookupSetter__'']"

text \<open>The read \<open>this.users[key]\<close>; \<open>None\<close> is \<open>undefined\<close>.\<close>

definition users_get :: "string \<Rightarrow> user_value option" where
  "users_get key =
     (case map_of users key of
        Some v \<Rightarrow> Some v
      | None \<Rightarrow> if key \<in> set Object_prototype then Some Builtin else None)"

subsection \<open>Requests and handlers\<close>

text \<open>
  A request has the fields \<open>username\<close> and \<open>password\<close>, both strings, and the
  field \<open>userData\<close>, absent (\<open>None\<close>) until a handler sets it.
\<close>

record request =
  username :: string
  password :: string
  userData :: "user_value option"

text \<open>The exception of a property read on \<open>undefined\<close>.\<close>

datatype error = TypeError

text \<open>
  A handler object: its class (with the \<open>requiredRole\<close> of a \<open>RoleHandler\<close>) and
  the field \<open>nextHandler\<close> of \<open>AbstractHandler\<close>, \<open>None\<close> for \<open>null\<close>. Handlers are
  held by reference in a heap, since \<open>setNext\<close> mutates its receiver.
\<close>

datatype handler_class =
    UserExistsHandler
  | PasswordHandler
  | RoleHandler (requiredRole: string)

record handler =
  kind :: handler_class
  nextHandler :: "nat option"

type_synonym heap = "nat \<Rightarrow> handler"

definition setNext :: "heap \<Rightarrow> nat \<Rightarrow> nat \<Rightarrow> heap \<times> nat" where
  "setNext h this handler = (h(this := (h this)\<lparr>nextHandler := Some handler\<rparr>), handler)"

subsection \<open>\<open>handle\<close>\<close>

text \<open>
  A call of \<open>handle\<close> works on the request object and on the console; \<open>run\<close> is
  that pair. The call returns normally with the pair as it has become
  (\<open>Inr\<close>), or throws with the pair as it was at the throw (\<open>Inl\<close>). Links can
  form a cycle, on which the calls never return: \<open>handle\<close> takes the number of
  nested calls it may make, and \<open>None\<close> says that this number did not suffice.
\<close>

type_synonym run = "request \<times> string list"

type_synonym outcome = "((error \<times> run) + run) option"

text \<open>
  The methods take the call \<open>this.nextHandler.handle\<close> as the argument
  \<open>dispatch\<close>. \<open>AbstractHandler.handle\<close> is the method behind \<open>super.handle\<close>.
\<close>

definition AbstractHandler_handle ::
  "(nat \<Rightarrow> run \<Rightarrow> outcome) \<Rightarrow> handler \<Rightarrow> run \<Rightarrow> outcome" where
  "AbstractHandler_handle dispatch this rc =
     (case nextHandler this of
        Some nxt \<Rightarrow> dispatch nxt rc
      | None \<Rightarrow> Some (Inr rc))"

definition UserExistsHandler_handle ::
  "(nat \<Rightarrow> run \<Rightarrow> outcome) \<Rightarrow> handler \<Rightarrow> run \<Rightarrow> outcome" where
  "UserExistsHandler_handle dispatch this rc =
     (let (request, out) = rc
      in case users_get (username request) of
           None \<Rightarrow> Some (Inr (request, out @ [''User does not exist!'']))
         | Some v \<Rightarrow>
             AbstractHandler_handle dispatch this (request\<lparr>userData := Some v\<rparr>, out))"

definition PasswordHandler_handle ::
  "(nat \<Rightarrow> run \<Rightarrow> outcome) \<Rightarrow> handler \<Rightarrow> run \<Rightarrow> outcome" where
  "PasswordHandler_handle dispatch this rc =
     (let (request, out) = rc
      in case userData request of
           None \<Rightarrow> Some (Inl (TypeError, rc))
         | Some v \<Rightarrow>
             if prop_password v \<noteq> Some (password request)
             then Some (Inr (request, out @ [''Incorrect password!'']))
             else AbstractHandler_handle dispatch this rc)"

definition RoleHandler_handle :: "string \<Rightarrow> run \<Rightarrow> outcome" where
  "RoleHandler_handle required rc =
     (let (request, out) = rc
      in case userData request of
           None \<Rightarrow> Some (Inl (TypeError, rc))
         | Some v \<Rightarrow>
             if prop_role v \<noteq> Some required
             then Some (Inr (request, out @ [''Access denied! Role is not valid.'']))
             else Some (Inr (request, out @ [''User successfully logged in!''])))"

text \<open>\<open>handler.handle(request)\<close>, dispatched on the class of the object.\<close>

primrec handle :: "nat \<Rightarrow> heap \<Rightarrow> nat \<Rightarrow> run \<Rightarrow> outcome" where
  "handle 0 h this rc = None"
| "handle (Suc n) h this rc =
     (case kind (h this) of
        UserExistsHandler \<Rightarrow> UserExistsHandler_handle (handle n h) (h this) rc
      | PasswordHandler \<Rightarrow> PasswordHandler_handle (handle n h) (h this) rc
      | RoleHandler required \<Rightarrow> RoleHandler_handle required rc)"

text \<open>The request object as a call has left it, whether it returned or threw.\<close>

definition final_request :: "(error \<times> run) + run \<Rightarrow> request" where
  "final_request res =
     (case res of Inl (e, (request, out)) \<Rightarrow> request | Inr (request, out) \<Rightarrow> request)"

subsection \<open>The chain of the usage section\<close>

text \<open>
  The three objects \<open>userExists\<close>, \<open>passwordCheck\<close> and \<open>roleCheck\<close> as their
  constructors leave them, then the chain built by
  \<open>userExists.setNext(passwordCheck).setNext(roleCheck)\<close>.
\<close>

abbreviation (input) userExists :: nat where "userExists \<equiv> 0"

abbreviation (input) passwordCheck :: nat where "passwordCheck \<equiv> 1"

abbreviation (input) roleCheck :: nat where "roleCheck \<equiv> 2"

definition new_handlers :: heap where
  "new_handlers r =
     (if r = userExists then \<lparr>kind = UserExistsHandler, nextHandler = None\<rparr>
      else if r = passwordCheck then \<lparr>kind = PasswordHandler, nextHandler = None\<rparr>
      else \<lparr>kind = RoleHandler ''admin'', nextHandler = None\<rparr>)"

definition login_chain :: heap where
  "login_chain =
     (let (h1, r1) = setNext new_handlers userExists passwordCheck;
          (h2, r2) = setNext h1 r1 roleCheck
      in h2)"

section \<open>Properties of the text editor\<close>

subsection \<open>\<open>slice\<close> and \<open>deleteText\<close>\<close>

lemma relative_index_le: "relative_index len i \<le> len"
  unfolding relative_index_def by auto

lemma slice_prefix: "slice s 0 (Some e) = take (relative_index (length s) e) s"
  unfolding slice_def relative_index_def Let_def by auto

lemma slice_suffix: "slice s i None = drop (relative_index (length s) i) s"
proof -
  have "relative_index (length s) i \<le> length s"
    by (rule relative_index_le)
  then show ?thesis
    unfolding slice_def Let_def by auto
qed

text \<open>The two slices that \<open>DeleteCommand.execute\<close> takes are complementary.\<close>

lemma slice_split: "slice s 0 (Some i) @ slice s i None = s"
  by (simp add: slice_prefix slice_suffix)

text \<open>
  For a positive count \<open>deleteText\<close> removes the last \<open>count\<close> code units and
  clamps at the empty string. For the count 0 it does not keep the content: the
  second argument of \<open>slice\<close> is then \<open>-0\<close>, that is 0, and the range is empty.
\<close>

lemma deleteText_positive:
  "0 < n \<Longrightarrow> deleteText s n = take (length s - nat n) s"
proof -
  assume "0 < n"
  then have "relative_index (length s) (- n) = length s - nat n"
    unfolding relative_index_def by auto
  then show ?thesis
    by (simp add: deleteText_def slice_prefix)
qed

lemma deleteText_clamp: "0 < n \<Longrightarrow> int (length s) \<le> n \<Longrightarrow> deleteText s n = []"
  by (simp add: deleteText_positive)

lemma deleteText_zero: "deleteText s 0 = []"
  by (simp add: deleteText_def slice_prefix relative_index_def)

lemma deleteText_length_le: "length (deleteText s (int m)) \<le> length s - m"
proof (cases m)
  case 0
  then show ?thesis by (simp add: deleteText_zero)
next
  case (Suc k)
  then have "0 < int m" by simp
  then show ?thesis by (simp add: deleteText_positive)
qed

text \<open>
  C2 (the code departs from the claim at count 0). The claim: for every content
  and every non-negative count, \<open>deleteText(count)\<close> leaves the first
  \<open>length - count\<close> code units, and for count 0 the content is unchanged. On the
  content \<open>abc\<close> and the count 0 the code leaves the empty string.
\<close>

theorem deleteText_zero_count: "deleteText ''abc'' 0 = []"
  by (simp add: deleteText_def slice_def relative_index_def)

subsection \<open>One command: \<open>execute\<close>, then \<open>undo\<close>\<close>

lemma execute_DeleteCommand:
  "execute (DeleteCommand d n) s =
     (DeleteCommand (drop (relative_index (length s) (- n)) s) n,
      take (relative_index (length s) (- n)) s)"
  by (simp add: deleteText_def slice_prefix slice_suffix)

text \<open>A \<open>TypeCommand\<close> whose text is not empty is undone exactly.\<close>

lemma TypeCommand_round_trip:
  "t \<noteq> [] \<Longrightarrow> undo (fst (execute (TypeCommand t) s)) (snd (execute (TypeCommand t) s)) = s"
  by (simp add: addText_def deleteText_positive)

text \<open>
  C3 (the code departs from the claim for the empty text). The claim: \<open>undo()\<close>
  right after \<open>execute()\<close> of a \<open>TypeCommand\<close> restores the content, whatever the
  inserted text, the empty string included. With \<open>new TypeCommand(editor, "")\<close> on
  the content \<open>abc\<close>, \<open>execute\<close> leaves \<open>abc\<close> and \<open>undo\<close> calls \<open>deleteText(0)\<close>,
  which empties the buffer.
\<close>

theorem TypeCommand_empty_undo:
  "snd (execute (TypeCommand []) ''abc'') = ''abc'' \<and>
   undo (fst (execute (TypeCommand []) ''abc'')) (snd (execute (TypeCommand []) ''abc'')) = []"
  by (simp add: addText_def deleteText_def slice_def relative_index_def)

text \<open>
  C4. A \<open>DeleteCommand\<close> whose count is greater than the length of the content:
  \<open>execute()\<close> leaves the buffer empty and stores the whole former content as the
  removed text, and \<open>undo()\<close> then restores exactly that content.
\<close>

theorem DeleteCommand_beyond_length:
  "int (length s) < n \<Longrightarrow>
   execute (DeleteCommand d n) s = (DeleteCommand s n, []) \<and>
   undo (fst (execute (DeleteCommand d n) s)) (snd (execute (DeleteCommand d n) s)) = s"
  by (simp add: execute_DeleteCommand relative_index_def addText_def del: execute.simps)

text \<open>C4 at the content \<open>Hi\<close> and the count 5.\<close>

theorem DeleteCommand_beyond_length_witness:
  "int (length ''Hi'') < 5 \<and>
   execute (DeleteCommand [] 5) ''Hi'' = (DeleteCommand ''Hi'' 5, []) \<and>
   undo (fst (execute (DeleteCommand [] 5) ''Hi'')) (snd (execute (DeleteCommand [] 5) ''Hi''))
     = ''Hi''"
  using DeleteCommand_beyond_length [of "''Hi''" 5 "[]"] by (simp add: addText_def)

text \<open>
  C8. For every content \<open>s\<close> and every count (the non-negative ones of the claim,
  and the negative ones as well), \<open>execute()\<close> of one \<open>DeleteCommand\<close> followed by
  its \<open>undo()\<close> restores \<open>s\<close>. For the count 0, \<open>execute()\<close> empties the buffer and
  stores the whole content as the removed text.
\<close>

theorem DeleteCommand_round_trip:
  "undo (fst (execute (DeleteCommand d n) s)) (snd (execute (DeleteCommand d n) s)) = s \<and>
   execute (DeleteCommand d 0) s = (DeleteCommand s 0, [])"
  by (simp add: execute_DeleteCommand relative_index_def addText_def del: execute.simps)

subsection \<open>The invoker\<close>

text \<open>
  C6. \<open>undo\<close> of the invoker on an empty history: the only change of the state is
  the line \<open>Nothing to undo\<close> on the console; the content of the buffer, the
  history and the command objects are as before. (The function is total: there
  is no error to return.)
\<close>

theorem invoker_undo_empty_history:
  "history st = [] \<Longrightarrow>
   invoker_undo st = st\<lparr>console := console st @ [''Nothing to undo'']\<rparr> \<and>
   editor_text (invoker_undo st) = editor_text st \<and>
   history (invoker_undo st) = [] \<and>
   objects (invoker_undo st) = objects st"
  by (simp add: invoker_undo_def)

text \<open>C6 on a new session.\<close>

theorem invoker_undo_empty_history_witness:
  "history (new_session usage_objects) = [] \<and>
   invoker_undo (new_session usage_objects)
     = (new_session usage_objects)\<lparr>console := [''Nothing to undo'']\<rparr> \<and>
   editor_text (invoker_undo (new_session usage_objects)) = []"
  using invoker_undo_empty_history [of "new_session usage_objects"]
  by (simp add: new_session_def)

text \<open>The sequence of the file's usage example, state by state.\<close>

lemma usage_example:
  "editor_text (foldl executeCommand (new_session usage_objects) [0]) = ''Hello''"
  "editor_text (foldl executeCommand (new_session usage_objects) [0, 1]) = ''Hello World''"
  "editor_text (foldl executeCommand (new_session usage_objects) [0, 1, 2]) = ''Hello''"
  "editor_text (invoker_undo (foldl executeCommand (new_session usage_objects) [0, 1, 2]))
     = ''Hello World''"
  "editor_text ((invoker_undo ^^ 2) (foldl executeCommand (new_session usage_objects) [0, 1, 2]))
     = ''Hello''"
  "editor_text ((invoker_undo ^^ 3) (foldl executeCommand (new_session usage_objects) [0, 1, 2]))
     = []"
  by (simp_all add: new_session_def executeCommand_def invoker_undo_def usage_objects_def
        addText_def deleteText_def slice_def relative_index_def eval_nat_numeral)

subsection \<open>Executing a sequence and undoing all of it\<close>

text \<open>
  Undoing never leaves more in the buffer than there was before the command
  ran, even when it starts from a shorter content than the command left.
\<close>

lemma undo_length_le:
  assumes "length t2 \<le> length (snd (execute c s))"
  shows "length (undo (fst (execute c s)) t2) \<le> length s"
proof (cases c)
  case (TypeCommand t)
  have "length (deleteText t2 (int (length t))) \<le> length t2 - length t"
    by (rule deleteText_length_le)
  moreover from assms TypeCommand have "length t2 \<le> length s + length t"
    by (simp add: addText_def)
  ultimately show ?thesis using TypeCommand by simp
next
  case (DeleteCommand d n)
  define k where "k = relative_index (length s) (- n)"
  have "k \<le> length s" unfolding k_def by (rule relative_index_le)
  moreover from assms DeleteCommand have "length t2 \<le> k"
    by (simp add: execute_DeleteCommand k_def del: execute.simps)
  ultimately show ?thesis using DeleteCommand
    by (simp add: execute_DeleteCommand k_def [symmetric] addText_def del: execute.simps)
qed

lemma history_executeCommand: "history (executeCommand st r) = history st @ [r]"
  by (simp add: executeCommand_def split: prod.split)

lemma objects_executeCommand_other:
  "r' \<noteq> r \<Longrightarrow> objects (executeCommand st r) r' = objects st r'"
  by (simp add: executeCommand_def split: prod.split)

lemma objects_executeCommand_same:
  "objects (executeCommand st r) r = fst (execute (objects st r) (editor_text st))"
  by (simp add: executeCommand_def split: prod.split)

lemma editor_text_executeCommand:
  "editor_text (executeCommand st r) = snd (execute (objects st r) (editor_text st))"
  by (simp add: executeCommand_def split: prod.split)

lemma execute_TypeCommand_object: "is_TypeCommand c \<Longrightarrow> fst (execute c s) = c"
  by (cases c) simp_all

lemma execute_kind: "is_DeleteCommand (fst (execute c s)) = is_DeleteCommand c"
  by (cases c) simp_all

lemma objects_executeCommand_kind:
  "is_DeleteCommand (objects (executeCommand st r) r') = is_DeleteCommand (objects st r')"
  by (cases "r' = r")
     (simp_all add: objects_executeCommand_same objects_executeCommand_other execute_kind)

lemma objects_executeCommand_unchanged:
  "r' \<noteq> r \<or> is_TypeCommand (objects st r') \<Longrightarrow>
   objects (executeCommand st r) r' = objects st r'"
  by (cases "r' = r")
     (auto simp: objects_executeCommand_same objects_executeCommand_other
        execute_TypeCommand_object)

text \<open>
  A command object is as its own \<open>execute\<close> left it unless it is a
  \<open>DeleteCommand\<close> that was executed again.
\<close>

lemma objects_foldl_executeCommand:
  "r \<notin> set rs \<or> is_TypeCommand (objects st r) \<Longrightarrow>
   objects (foldl executeCommand st rs) r = objects st r"
proof (induction rs arbitrary: st)
  case Nil
  then show ?case by simp
next
  case (Cons a rs)
  from Cons.prems have same: "objects (executeCommand st a) r = objects st r"
    by (intro objects_executeCommand_unchanged) auto
  from Cons.prems have "r \<notin> set rs \<or> is_TypeCommand (objects (executeCommand st a) r)"
    unfolding same by auto
  from Cons.IH [OF this] show ?case by (simp add: same)
qed

lemma invoker_undo_snoc:
  "history st = h @ [r] \<Longrightarrow>
   invoker_undo st = st\<lparr>history := h, editor_text := undo (objects st r) (editor_text st)\<rparr>"
  by (simp add: invoker_undo_def)

lemma each_DeleteCommand_once_Cons:
  "each_DeleteCommand_once objs (r # rs) \<Longrightarrow>
   each_DeleteCommand_once objs rs \<and> (r \<notin> set rs \<or> is_TypeCommand (objs r))"
  by (cases "objs r") (auto simp: each_DeleteCommand_once_def)

lemma each_DeleteCommand_once_executeCommand:
  "each_DeleteCommand_once (objects (executeCommand st r)) rs
     = each_DeleteCommand_once (objects st) rs"
  by (simp add: each_DeleteCommand_once_def objects_executeCommand_kind)

text \<open>
  From any state: after the commands \<open>rs\<close> have been executed and as many undone,
  the history is the one before, and the buffer is no longer than before.
\<close>

lemma undo_all_after_run:
  "each_DeleteCommand_once (objects st) rs \<Longrightarrow>
   history ((invoker_undo ^^ length rs) (foldl executeCommand st rs)) = history st \<and>
   length (editor_text ((invoker_undo ^^ length rs) (foldl executeCommand st rs)))
     \<le> length (editor_text st) \<and>
   objects ((invoker_undo ^^ length rs) (foldl executeCommand st rs))
     = objects (foldl executeCommand st rs)"
proof (induction rs arbitrary: st)
  case Nil
  then show ?case by simp
next
  case (Cons r rs)
  define st1 where "st1 = executeCommand st r"
  define st2 where "st2 = (invoker_undo ^^ length rs) (foldl executeCommand st1 rs)"
  from each_DeleteCommand_once_Cons [OF Cons.prems]
  have d: "each_DeleteCommand_once (objects st1) rs"
    and fresh: "r \<notin> set rs \<or> is_TypeCommand (objects st1 r)"
    by (simp_all add: st1_def each_DeleteCommand_once_executeCommand
          objects_executeCommand_same execute_TypeCommand_object)
  from Cons.IH [OF d]
  have h2: "history st2 = history st @ [r]"
    and l2: "length (editor_text st2) \<le> length (editor_text st1)"
    and o2: "objects st2 = objects (foldl executeCommand st1 rs)"
    by (simp_all add: st2_def st1_def history_executeCommand)
  have "objects st2 r = objects st1 r"
    unfolding o2 by (rule objects_foldl_executeCommand [OF fresh])
  then have obj: "objects st2 r = fst (execute (objects st r) (editor_text st))"
    by (simp add: st1_def objects_executeCommand_same)
  have t1: "editor_text st1 = snd (execute (objects st r) (editor_text st))"
    by (simp add: st1_def editor_text_executeCommand)
  have step: "(invoker_undo ^^ length (r # rs)) (foldl executeCommand st (r # rs))
      = invoker_undo st2"
    by (simp add: st2_def st1_def)
  have u: "invoker_undo st2 = st2\<lparr>history := history st,
             editor_text := undo (objects st2 r) (editor_text st2)\<rparr>"
    by (rule invoker_undo_snoc [OF h2])
  have "length (undo (objects st2 r) (editor_text st2)) \<le> length (editor_text st)"
    unfolding obj by (rule undo_length_le) (use l2 t1 in simp)
  then show ?case
    unfolding step u by (simp add: o2 st1_def)
qed

text \<open>
  C1, as amended. On a new (empty) buffer, for every sequence \<open>rs\<close> of
  \<open>TypeCommand\<close> and \<open>DeleteCommand\<close> objects in which no \<open>DeleteCommand\<close> object
  occurs twice: executing them through the invoker and then calling the invoker's
  \<open>undo\<close> once for each leaves the empty string in the buffer. The texts may be
  empty and the counts may be zero or greater than the length of the content.
\<close>

theorem undo_all_restores_empty:
  "each_DeleteCommand_once objs rs \<Longrightarrow>
   editor_text ((invoker_undo ^^ length rs) (foldl executeCommand (new_session objs) rs)) = []"
  using undo_all_after_run [of "new_session objs" rs] by (simp add: new_session_def)

text \<open>C1, as amended, on the three commands of the usage example.\<close>

theorem undo_all_restores_empty_witness:
  "each_DeleteCommand_once usage_objects [0, 1, 2] \<and>
   editor_text ((invoker_undo ^^ length [0, 1, 2::nat])
     (foldl executeCommand (new_session usage_objects) [0, 1, 2])) = []"
  using undo_all_restores_empty [of usage_objects "[0, 1, 2]"]
  by (simp add: each_DeleteCommand_once_def usage_objects_def)

text \<open>
  C1 as written fails when one \<open>DeleteCommand\<close> object is executed twice. With
  \<open>d = new DeleteCommand(editor, 1)\<close> and \<open>t = new TypeCommand(editor, "x")\<close>, the
  history after executing \<open>d, t, d\<close> on the empty buffer points to \<open>d\<close> twice; the
  second \<open>execute\<close> of \<open>d\<close> has overwritten its \<open>deletedText\<close> with \<open>x\<close>, so the
  three undos append \<open>x\<close>, remove it and append it again: the buffer ends as \<open>x\<close>.
\<close>

theorem reused_DeleteCommand_counterexample:
  "editor_text ((invoker_undo ^^ 3) (foldl executeCommand (new_session reuse_objects) [0, 1, 0]))
     = ''x'' \<and>
   editor_text ((invoker_undo ^^ 3) (foldl executeCommand (new_session reuse_objects) [0, 1, 0]))
     \<noteq> []"
  by (simp add: new_session_def executeCommand_def invoker_undo_def reuse_objects_def
        addText_def deleteText_def slice_def relative_index_def eval_nat_numeral)

section \<open>Properties of the login chain\<close>

subsection \<open>\<open>setNext\<close> and the inherited \<open>handle\<close>\<close>

text \<open>
  C7. \<open>a.setNext(b)\<close> stores \<open>b\<close> as the successor of \<open>a\<close> and returns \<open>b\<close>. For
  two handlers \<open>a\<close> and \<open>b\<close> (different objects, as "returns \<open>b\<close>, not \<open>a\<close>" has
  it), \<open>a.setNext(b).setNext(c)\<close> links \<open>a\<close> to \<open>b\<close> and \<open>b\<close> to \<open>c\<close> and evaluates
  to \<open>c\<close>. \<open>AbstractHandler.handle\<close> passes the same request on to the successor
  when there is one, and returns with nothing changed when \<open>nextHandler\<close> is
  \<open>null\<close>.
\<close>

theorem setNext_links:
  "nextHandler (fst (setNext h a b) a) = Some b \<and>
   snd (setNext h a b) = b \<and>
   (a \<noteq> b \<longrightarrow>
      (let (h1, r1) = setNext h a b;
           (h2, r2) = setNext h1 r1 c
       in nextHandler (h2 a) = Some b \<and> nextHandler (h2 b) = Some c \<and> r2 = c)) \<and>
   AbstractHandler_handle dispatch \<lparr>kind = k, nextHandler = Some nxt\<rparr> rc = dispatch nxt rc \<and>
   AbstractHandler_handle dispatch \<lparr>kind = k, nextHandler = None\<rparr> rc = Some (Inr rc)"
  by (simp add: setNext_def AbstractHandler_handle_def)

text \<open>C7 on the three handlers of the usage section.\<close>

theorem setNext_links_witness:
  "userExists \<noteq> passwordCheck \<and>
   (let (h1, r1) = setNext new_handlers userExists passwordCheck;
        (h2, r2) = setNext h1 r1 roleCheck
    in nextHandler (h2 userExists) = Some passwordCheck \<and>
       nextHandler (h2 passwordCheck) = Some roleCheck \<and> r2 = roleCheck)"
  using setNext_links [where h = new_handlers and a = userExists and b = passwordCheck
      and c = roleCheck]
  by simp

subsection \<open>The chain \<open>userExists\<close>, \<open>passwordCheck\<close>, \<open>roleCheck\<close>\<close>

lemma login_chain_links:
  "login_chain userExists = \<lparr>kind = UserExistsHandler, nextHandler = Some passwordCheck\<rparr>"
  "login_chain passwordCheck = \<lparr>kind = PasswordHandler, nextHandler = Some roleCheck\<rparr>"
  "login_chain roleCheck = \<lparr>kind = RoleHandler ''admin'', nextHandler = None\<rparr>"
  "login_chain (Suc 0) = \<lparr>kind = PasswordHandler, nextHandler = Some roleCheck\<rparr>"
  "login_chain (Suc (Suc 0)) = \<lparr>kind = RoleHandler ''admin'', nextHandler = None\<rparr>"
  by (simp_all add: login_chain_def setNext_def new_handlers_def)

lemma users_get_simps:
  "users_get ''charlie'' = None"
  "users_get ''alice'' = Some (UserObject ''1234'' ''admin'')"
  "users_get ''bob'' = Some (UserObject ''abcd'' ''user'')"
  "users_get ''toString'' = Some Builtin"
  by (simp_all add: users_get_def users_def Object_prototype_def)

lemmas handle_defs =
  UserExistsHandler_handle_def PasswordHandler_handle_def RoleHandler_handle_def
  AbstractHandler_handle_def

text \<open>
  C5. With the required role \<open>admin\<close> and the table of \<open>alice\<close> and \<open>bob\<close>, the
  chain, called at its head with three or more nested calls allowed, returns
  with one line added to the console: for \<open>charlie\<close> the line of the existence
  check, the request without \<open>userData\<close>; for \<open>alice\<close> with a wrong password the
  line of the password check; for \<open>bob\<close> the line of the role check; for \<open>alice\<close>
  with her password the line of success. In the last three the request carries
  the user's \<open>userData\<close>.
\<close>

theorem login_chain_scenarios:
  "handle (Suc (Suc (Suc k))) login_chain userExists
     (\<lparr>username = ''charlie'', password = ''1234'', userData = None\<rparr>, out)
   = Some (Inr (\<lparr>username = ''charlie'', password = ''1234'', userData = None\<rparr>,
        out @ [''User does not exist!''])) \<and>
   handle (Suc (Suc (Suc k))) login_chain userExists
     (\<lparr>username = ''alice'', password = ''wrongpass'', userData = None\<rparr>, out)
   = Some (Inr (\<lparr>username = ''alice'', password = ''wrongpass'',
          userData = Some (UserObject ''1234'' ''admin'')\<rparr>,
        out @ [''Incorrect password!''])) \<and>
   handle (Suc (Suc (Suc k))) login_chain userExists
     (\<lparr>username = ''bob'', password = ''abcd'', userData = None\<rparr>, out)
   = Some (Inr (\<lparr>username = ''bob'', password = ''abcd'',
          userData = Some (UserObject ''abcd'' ''user'')\<rparr>,
        out @ [''Access denied! Role is not valid.''])) \<and>
   handle (Suc (Suc (Suc k))) login_chain userExists
     (\<lparr>username = ''alice'', password = ''1234'', userData = None\<rparr>, out)
   = Some (Inr (\<lparr>username = ''alice'', password = ''1234'',
          userData = Some (UserObject ''1234'' ''admin'')\<rparr>,
        out @ [''User successfully logged in!'']))"
  by (simp add: login_chain_links handle_defs users_get_simps)

text \<open>
  Called at its head, the chain returns for every request, with one line added
  to the console; it never throws.
\<close>

lemma login_chain_returns:
  "\<exists>request' line. handle (Suc (Suc (Suc k))) login_chain userExists (request, out)
     = Some (Inr (request', out @ [line]))"
  by (simp add: login_chain_links handle_defs split: option.splits)

subsection \<open>Calls that find no \<open>userData\<close>\<close>

text \<open>
  C9. \<open>PasswordHandler.handle\<close> and \<open>RoleHandler.handle\<close> read a property of
  \<open>request.userData\<close> before anything else: on a request without \<open>userData\<close> the
  call throws a \<open>TypeError\<close>, with the request untouched and nothing written to
  the console, whatever the successor. Called at its head \<open>userExists\<close>, the chain
  returns normally for every request.
\<close>

theorem absent_userData_TypeError:
  "(userData request = None \<and> kind (h this) = PasswordHandler \<longrightarrow>
      handle (Suc n) h this (request, out) = Some (Inl (TypeError, (request, out)))) \<and>
   (userData request = None \<and> kind (h this) = RoleHandler required \<longrightarrow>
      handle (Suc n) h this (request, out) = Some (Inl (TypeError, (request, out)))) \<and>
   (\<exists>request' line. handle (Suc (Suc (Suc k))) login_chain userExists (request, out)
      = Some (Inr (request', out @ [line])))"
  using login_chain_returns [of k request out] by (simp add: handle_defs)

text \<open>
  C9 on the request \<open>{username: "alice", password: "1234"}\<close>, passed to
  \<open>passwordCheck\<close> and to \<open>roleCheck\<close> of the chain.
\<close>

theorem absent_userData_TypeError_witness:
  "userData \<lparr>username = ''alice'', password = ''1234'', userData = None\<rparr> = None \<and>
   kind (login_chain passwordCheck) = PasswordHandler \<and>
   handle (Suc 0) login_chain passwordCheck
     (\<lparr>username = ''alice'', password = ''1234'', userData = None\<rparr>, [])
   = Some (Inl (TypeError, (\<lparr>username = ''alice'', password = ''1234'', userData = None\<rparr>, []))) \<and>
   kind (login_chain roleCheck) = RoleHandler ''admin'' \<and>
   handle (Suc 0) login_chain roleCheck
     (\<lparr>username = ''alice'', password = ''1234'', userData = None\<rparr>, [])
   = Some (Inl (TypeError, (\<lparr>username = ''alice'', password = ''1234'', userData = None\<rparr>, [])))"
  using
    absent_userData_TypeError [where h = login_chain and this = passwordCheck and n = 0
      and request = "\<lparr>username = ''alice'', password = ''1234'', userData = None\<rparr>"
      and out = "[]"]
    absent_userData_TypeError [where h = login_chain and this = roleCheck and n = 0
      and required = "''admin''"
      and request = "\<lparr>username = ''alice'', password = ''1234'', userData = None\<rparr>"
      and out = "[]"]
  by (simp add: login_chain_links)

subsection \<open>What a call changes in the request\<close>

lemma final_request_simps [simp]:
  "final_request (Inl (e, (request, out))) = request"
  "final_request (Inr (request, out)) = request"
  by (simp_all add: final_request_def)

text \<open>
  In any chain, however linked, a call of \<open>handle\<close> that comes back (returning or
  throwing) leaves \<open>username\<close> and \<open>password\<close> of the request as they were.
\<close>

lemma handle_frame:
  "handle n h r (req, out) = Some res \<Longrightarrow>
   username (final_request res) = username req \<and> password (final_request res) = password req"
proof (induction n arbitrary: r req out res)
  case 0
  then show ?case by simp
next
  case (Suc n)
  show ?case
  proof (cases "kind (h r)")
    case UserExistsHandler
    show ?thesis
    proof (cases "users_get (username req)")
      case None
      with Suc.prems UserExistsHandler show ?thesis
        by (auto simp: UserExistsHandler_handle_def)
    next
      case (Some v)
      show ?thesis
      proof (cases "nextHandler (h r)")
        case None
        with Suc.prems UserExistsHandler Some show ?thesis
          by (auto simp: UserExistsHandler_handle_def AbstractHandler_handle_def)
      next
        case (Some nxt)
        with Suc.prems UserExistsHandler \<open>users_get (username req) = Some v\<close>
        have "handle n h nxt (req\<lparr>userData := Some v\<rparr>, out) = Some res"
          by (simp add: UserExistsHandler_handle_def AbstractHandler_handle_def)
        from Suc.IH [OF this] show ?thesis by simp
      qed
    qed
  next
    case PasswordHandler
    show ?thesis
    proof (cases "\<exists>v. userData req = Some v \<and> prop_password v = Some (password req)
                    \<and> nextHandler (h r) \<noteq> None")
      case True
      then obtain v nxt where "userData req = Some v" "prop_password v = Some (password req)"
        "nextHandler (h r) = Some nxt" by auto
      with Suc.prems PasswordHandler have "handle n h nxt (req, out) = Some res"
        by (simp add: PasswordHandler_handle_def AbstractHandler_handle_def)
      from Suc.IH [OF this] show ?thesis .
    next
      case False
      with Suc.prems PasswordHandler show ?thesis
        by (auto simp: PasswordHandler_handle_def AbstractHandler_handle_def
              split: option.splits if_splits)
    qed
  next
    case (RoleHandler required)
    with Suc.prems show ?thesis
      by (auto simp: RoleHandler_handle_def split: option.splits if_splits)
  qed
qed

text \<open>
  In the chain of the usage section the request comes back unchanged when
  \<open>this.users[username]\<close> is \<open>undefined\<close>, and with that value in \<open>userData\<close>, and
  no other change, when it is not.
\<close>

lemma login_chain_request:
  "handle (Suc (Suc (Suc k))) login_chain userExists (req, out) = Some res \<Longrightarrow>
   final_request res =
     (case users_get (username req) of
        None \<Rightarrow> req
      | Some v \<Rightarrow> req\<lparr>userData := Some v\<rparr>)"
  by (auto simp: login_chain_links handle_defs split: option.splits if_splits)

text \<open>
  C10 (the code departs from the claim for an inherited property name). The
  claim: the chain never changes \<open>username\<close> or \<open>password\<close>, and its only mutation
  is \<open>UserExistsHandler\<close> setting \<open>userData\<close>, once, and only when the username
  exists in the user table. The first part holds (\<open>handle_frame\<close>,
  \<open>login_chain_request\<close>). But \<open>toString\<close> is no user of the table, and for the
  request \<open>{username: "toString", password: "1234"}\<close> the read
  \<open>this.users["toString"]\<close> finds the function inherited from \<open>Object.prototype\<close>:
  the existence check passes, \<open>userData\<close> is set to that function, and the chain
  stops at the password check.
\<close>

theorem userData_for_inherited_name:
  "map_of users ''toString'' = None \<and>
   handle 3 login_chain userExists
     (\<lparr>username = ''toString'', password = ''1234'', userData = None\<rparr>, [])
   = Some (Inr (\<lparr>username = ''toString'', password = ''1234'', userData = Some Builtin\<rparr>,
        [''Incorrect password!'']))"
  by (simp add: login_chain_links handle_defs users_get_simps eval_nat_numeral users_def)

end
